theory Spec2Isabelle
  imports Main
begin

section \<open>Comments and the annotation marker\<close>

text \<open>
  A comment record of the parser: its text (\<open>comment.value\<close>) and, when it has a
  location, the line it starts on (\<open>comment.loc.start.line\<close>).
\<close>

datatype comment = Comment (cvalue: string) (cline: "nat option")

text \<open>The comments attached to one node: \<open>leadingComments\<close> and \<open>trailingComments\<close>
  (an absent array is the empty list).\<close>

datatype attached = Attached (leadingOf: "comment list") (trailingOf: "comment list")

definition no_comments :: attached where
  "no_comments = Attached [] []"

fun startsWith :: "string \<Rightarrow> string \<Rightarrow> bool" where
  "startsWith s [] = True"
| "startsWith [] (m # ms) = False"
| "startsWith (c # cs) (m # ms) = (c = m \<and> startsWith cs ms)"

text \<open>\<open>String.prototype.includes\<close>: the marker occurs at some position of the text.\<close>

fun str_includes :: "string \<Rightarrow> string \<Rightarrow> bool" where
  "str_includes [] m = (m = [])"
| "str_includes (c # cs) m = (startsWith (c # cs) m \<or> str_includes cs m)"

definition marker :: string where
  "marker = ''@employee-code''"

definition isEmployeeCodeComment :: "comment \<Rightarrow> bool" where
  "isEmployeeCodeComment c = (cvalue c \<noteq> [] \<and> str_includes (cvalue c) marker)"

definition hasEmployeeCodeComment :: "comment list \<Rightarrow> bool" where
  "hasEmployeeCodeComment comments = list_ex isEmployeeCodeComment comments"

text \<open>
  \<open>findEmployeeCodeCommentLines\<close>: one walk over the comment list of the file; every
  annotation comment that has a location contributes its start line and the line after.
\<close>

definition addCommentLines :: "comment \<Rightarrow> nat set \<Rightarrow> nat set" where
  "addCommentLines c commentLines =
     (case cline c of
        None \<Rightarrow> commentLines
      | Some lineNum \<Rightarrow>
          if isEmployeeCodeComment c then insert (lineNum + 1) (insert lineNum commentLines)
          else commentLines)"

definition findEmployeeCodeCommentLines :: "comment list \<Rightarrow> nat set" where
  "findEmployeeCodeCommentLines comments = fold addCommentLines comments {}"

section \<open>The removed-symbol tracker and the critical lists\<close>

text \<open>\<open>removedImports\<close> is a JavaScript \<open>Set\<close> of strings: insertion ordered, adding a
  member again changes nothing.\<close>

type_synonym tracker = "string list"

definition Set_add :: "tracker \<Rightarrow> string \<Rightarrow> tracker" where
  "Set_add T x = (if x \<in> set T then T else T @ [x])"

definition Set_has :: "tracker \<Rightarrow> string \<Rightarrow> bool" where
  "Set_has T x = (x \<in> set T)"

definition CRITICAL_MODULES :: "string list" where
  "CRITICAL_MODULES = [''react'', ''react-native'', ''react/jsx-runtime'', ''react/jsx-dev-runtime'']"

definition CRITICAL_IMPORTS :: "string list" where
  "CRITICAL_IMPORTS = [''StyleSheet'', ''View'', ''Text'', ''_jsx'', ''_jsxs'', ''_jsxDEV'',
     ''Fragment'', ''jsx'', ''jsxs'', ''createElement'']"

definition isCriticalImport :: "string \<Rightarrow> string list \<Rightarrow> bool" where
  "isCriticalImport source importedNames =
     (if source \<in> set CRITICAL_MODULES then True
      else if source = ''react-native'' \<and> list_ex (\<lambda>name. name \<in> set CRITICAL_IMPORTS) importedNames
        then True
      else if list_ex (\<lambda>name. name \<in> set CRITICAL_IMPORTS) importedNames then True
      else False)"

text \<open>The loop \<open>importedNames.forEach(name => if (!CRITICAL_IMPORTS.includes(name)) removedImports.add(name))\<close>.\<close>

definition trackNonCritical :: "tracker \<Rightarrow> string list \<Rightarrow> tracker" where
  "trackNonCritical T names =
     fold (\<lambda>name acc. if name \<notin> set CRITICAL_IMPORTS then Set_add acc name else acc) names T"

section \<open>The syntax tree\<close>

text \<open>
  The node kinds of the parser's tree that the plugin inspects, with the fields it reads,
  in the order the traversal visits them. \<open>NullNode\<close> is an absent child (\<open>null\<close>): a
  single-child position is left in that state when its child is removed. \<open>Other\<close> stands
  for every node kind the plugin registers no visitor for (blocks, returns, exports,
  arrays, ...): its type name and its children in traversal order. Comments are recorded
  on the node kinds whose comments the plugin reads and on \<open>Other\<close>. The entries of an
  object expression are \<open>ObjectProperty\<close> (\<open>k: v\<close>), \<open>ObjectMethod\<close> (\<open>k(params) {...}\<close>) and,
  without a key, \<open>Other\<close> (a spread).
\<close>

datatype node =
    NullNode
  | Identifier string
  | JSXIdentifier string
  | StringLiteral string
  | BooleanLiteral bool
  | NullLiteral
  | MemberExpression node node
  | CallExpression node "node list"
  | ObjectExpression "node list"
  | ObjectProperty attached node node
  | ObjectMethod attached node "node list" node
  | ClassProperty attached node node
  | LogicalExpression attached string node node
  | JSXExpressionContainer attached node
  | JSXAttribute node node
  | JSXOpeningElement attached node "node list"
  | JSXElement attached "nat option" node "node list"
  | VariableDeclarator node node
  | VariableDeclaration attached "node list"
  | FunctionDeclaration attached node "node list" node
  | ExpressionStatement attached node
  | ImportSpecifier node node
  | ImportDefaultSpecifier node
  | ImportNamespaceSpecifier node
  | ImportDeclaration attached string "node list"
  | Other attached string "node list"

text \<open>A file as the traversal receives it: \<open>file.ast.comments\<close> and the body of the
  program.\<close>

datatype ast = Ast (astComments: "comment list") (programBody: "node list")

subsection \<open>Field access\<close>

text \<open>Reading a field a node does not have gives \<open>undefined\<close>: \<open>NullNode\<close> for a child,
  \<open>None\<close> for a string, the empty list for an array.\<close>

fun truthy :: "node \<Rightarrow> bool" where
  "truthy NullNode = False"
| "truthy _ = True"

fun commentsOf :: "node \<Rightarrow> attached" where
  "commentsOf (ObjectProperty a _ _) = a"
| "commentsOf (ObjectMethod a _ _ _) = a"
| "commentsOf (ClassProperty a _ _) = a"
| "commentsOf (LogicalExpression a _ _ _) = a"
| "commentsOf (JSXExpressionContainer a _) = a"
| "commentsOf (JSXOpeningElement a _ _) = a"
| "commentsOf (JSXElement a _ _ _) = a"
| "commentsOf (VariableDeclaration a _) = a"
| "commentsOf (FunctionDeclaration a _ _ _) = a"
| "commentsOf (ExpressionStatement a _) = a"
| "commentsOf (ImportDeclaration a _ _) = a"
| "commentsOf (Other a _ _) = a"
| "commentsOf _ = no_comments"

definition leadingComments :: "node \<Rightarrow> comment list" where
  "leadingComments n = leadingOf (commentsOf n)"

definition trailingComments :: "node \<Rightarrow> comment list" where
  "trailingComments n = trailingOf (commentsOf n)"

text \<open>The test every visitor starts with:
  \<open>hasEmployeeCodeComment(node.leadingComments) || hasEmployeeCodeComment(node.trailingComments)\<close>.\<close>

definition hasDirectComment :: "node \<Rightarrow> bool" where
  "hasDirectComment n =
     (hasEmployeeCodeComment (leadingComments n) \<or> hasEmployeeCodeComment (trailingComments n))"

fun nameOf :: "node \<Rightarrow> string option" where
  "nameOf (Identifier s) = Some s"
| "nameOf (JSXIdentifier s) = Some s"
| "nameOf _ = None"

text \<open>A name used as a condition (\<open>if (id.name)\<close>): present and not the empty string.\<close>

definition truthyName :: "node \<Rightarrow> bool" where
  "truthyName n = (case nameOf n of None \<Rightarrow> False | Some s \<Rightarrow> s \<noteq> [])"

text \<open>String concatenation with a name that may be \<open>undefined\<close>.\<close>

definition nameText :: "node \<Rightarrow> string" where
  "nameText n = (case nameOf n of None \<Rightarrow> ''undefined'' | Some s \<Rightarrow> s)"

fun isIdentifier :: "node \<Rightarrow> bool" where
  "isIdentifier (Identifier _) = True"
| "isIdentifier _ = False"

fun isMemberExpression :: "node \<Rightarrow> bool" where
  "isMemberExpression (MemberExpression _ _) = True"
| "isMemberExpression _ = False"

fun isCallExpression :: "node \<Rightarrow> bool" where
  "isCallExpression (CallExpression _ _) = True"
| "isCallExpression _ = False"

fun isObjectExpression :: "node \<Rightarrow> bool" where
  "isObjectExpression (ObjectExpression _) = True"
| "isObjectExpression _ = False"

fun isLogicalExpression :: "node \<Rightarrow> bool" where
  "isLogicalExpression (LogicalExpression _ _ _ _) = True"
| "isLogicalExpression _ = False"

fun isJSXExpressionContainer :: "node \<Rightarrow> bool" where
  "isJSXExpressionContainer (JSXExpressionContainer _ _) = True"
| "isJSXExpressionContainer _ = False"

fun isJSXAttribute :: "node \<Rightarrow> bool" where
  "isJSXAttribute (JSXAttribute _ _) = True"
| "isJSXAttribute _ = False"

fun isJSXElement :: "node \<Rightarrow> bool" where
  "isJSXElement (JSXElement _ _ _ _) = True"
| "isJSXElement _ = False"

fun isVariableDeclarator :: "node \<Rightarrow> bool" where
  "isVariableDeclarator (VariableDeclarator _ _) = True"
| "isVariableDeclarator _ = False"

fun isImportDeclaration :: "node \<Rightarrow> bool" where
  "isImportDeclaration (ImportDeclaration _ _ _) = True"
| "isImportDeclaration _ = False"

fun isImportSpecifier :: "node \<Rightarrow> bool" where
  "isImportSpecifier (ImportSpecifier _ _) = True"
| "isImportSpecifier _ = False"

fun isImportDefaultSpecifier :: "node \<Rightarrow> bool" where
  "isImportDefaultSpecifier (ImportDefaultSpecifier _) = True"
| "isImportDefaultSpecifier _ = False"

fun objectOf :: "node \<Rightarrow> node" where
  "objectOf (MemberExpression ob _) = ob"
| "objectOf _ = NullNode"

fun propertyOf :: "node \<Rightarrow> node" where
  "propertyOf (MemberExpression _ pr) = pr"
| "propertyOf _ = NullNode"

fun calleeOf :: "node \<Rightarrow> node" where
  "calleeOf (CallExpression c _) = c"
| "calleeOf _ = NullNode"

fun argumentsOf :: "node \<Rightarrow> node list" where
  "argumentsOf (CallExpression _ as) = as"
| "argumentsOf _ = []"

fun propertiesOf :: "node \<Rightarrow> node list" where
  "propertiesOf (ObjectExpression ps) = ps"
| "propertiesOf _ = []"

fun keyOf :: "node \<Rightarrow> node" where
  "keyOf (ObjectProperty _ k _) = k"
| "keyOf (ObjectMethod _ k _ _) = k"
| "keyOf (ClassProperty _ k _) = k"
| "keyOf _ = NullNode"

fun operatorOf :: "node \<Rightarrow> string" where
  "operatorOf (LogicalExpression _ op _ _) = op"
| "operatorOf _ = []"

fun leftOf :: "node \<Rightarrow> node" where
  "leftOf (LogicalExpression _ _ l _) = l"
| "leftOf _ = NullNode"

fun expressionOf :: "node \<Rightarrow> node" where
  "expressionOf (JSXExpressionContainer _ e) = e"
| "expressionOf (ExpressionStatement _ e) = e"
| "expressionOf _ = NullNode"

text \<open>\<open>.name\<close> of an opening element or an attribute is a node; \<open>.value\<close> of an attribute.\<close>

fun nameNodeOf :: "node \<Rightarrow> node" where
  "nameNodeOf (JSXOpeningElement _ n _) = n"
| "nameNodeOf (JSXAttribute n _) = n"
| "nameNodeOf _ = NullNode"

fun valueOf :: "node \<Rightarrow> node" where
  "valueOf (JSXAttribute _ v) = v"
| "valueOf (ObjectProperty _ _ v) = v"
| "valueOf (ClassProperty _ _ v) = v"
| "valueOf _ = NullNode"

fun attributesOf :: "node \<Rightarrow> node list" where
  "attributesOf (JSXOpeningElement _ _ as) = as"
| "attributesOf _ = []"

fun openingElementOf :: "node \<Rightarrow> node" where
  "openingElementOf (JSXElement _ _ opening _) = opening"
| "openingElementOf _ = NullNode"

fun startLineOf :: "node \<Rightarrow> nat option" where
  "startLineOf (JSXElement _ loc _ _) = loc"
| "startLineOf _ = None"

fun idOf :: "node \<Rightarrow> node" where
  "idOf (VariableDeclarator i _) = i"
| "idOf (FunctionDeclaration _ i _ _) = i"
| "idOf _ = NullNode"

fun initOf :: "node \<Rightarrow> node" where
  "initOf (VariableDeclarator _ i) = i"
| "initOf _ = NullNode"

fun declarationsOf :: "node \<Rightarrow> node list" where
  "declarationsOf (VariableDeclaration _ ds) = ds"
| "declarationsOf _ = []"

fun sourceValueOf :: "node \<Rightarrow> string" where
  "sourceValueOf (ImportDeclaration _ s _) = s"
| "sourceValueOf _ = []"

fun specifiersOf :: "node \<Rightarrow> node list" where
  "specifiersOf (ImportDeclaration _ _ ss) = ss"
| "specifiersOf _ = []"

fun importedOf :: "node \<Rightarrow> node" where
  "importedOf (ImportSpecifier i _) = i"
| "importedOf _ = NullNode"

fun localOf :: "node \<Rightarrow> node" where
  "localOf (ImportSpecifier _ l) = l"
| "localOf (ImportDefaultSpecifier l) = l"
| "localOf (ImportNamespaceSpecifier l) = l"
| "localOf _ = NullNode"

section \<open>The removal decision\<close>

text \<open>The names an import declaration binds:
  \<open>specifiers.map(spec => spec.imported ? (spec.local ? spec.local.name : spec.imported.name)
     : spec.local ? spec.local.name : null).filter(Boolean)\<close>.\<close>

definition specifierName :: "node \<Rightarrow> string option" where
  "specifierName spec =
     (if truthy (importedOf spec) then
        (if truthy (localOf spec) then nameOf (localOf spec) else nameOf (importedOf spec))
      else if truthy (localOf spec) then nameOf (localOf spec)
      else None)"

definition importedNames :: "node list \<Rightarrow> string list" where
  "importedNames specs = filter (\<lambda>s. s \<noteq> []) (List.map_filter specifierName specs)"

text \<open>The attribute test of \<open>hasStyleProp\<close> inside \<open>shouldRemoveNode\<close>.\<close>

definition usesRemovedStyle :: "tracker \<Rightarrow> node \<Rightarrow> bool" where
  "usesRemovedStyle T attr =
     (isJSXAttribute attr \<and>
      nameOf (nameNodeOf attr) = Some ''style'' \<and>
      isJSXExpressionContainer (valueOf attr) \<and>
      isMemberExpression (expressionOf (valueOf attr)) \<and>
      isIdentifier (objectOf (expressionOf (valueOf attr))) \<and>
      isIdentifier (propertyOf (expressionOf (valueOf attr))) \<and>
      Set_has T (''styles.'' @ nameText (propertyOf (expressionOf (valueOf attr)))))"

text \<open>
  \<open>shouldRemoveNode(path, employeeCodeLines)\<close>. The arguments are the tracker, the node of
  the previous sibling (\<open>path.getPrevSibling().node\<close>, \<open>NullNode\<close> when there is none), the
  line set (\<open>None\<close> for the call with \<open>null\<close>) and \<open>path.node\<close>. The result is the tracker
  after the call and the returned boolean. The chain of conditions is the source's sequence
  of \<open>if (...) return\<close> statements, in order.
\<close>

definition shouldRemoveNode :: "tracker \<Rightarrow> node \<Rightarrow> nat set option \<Rightarrow> node \<Rightarrow> tracker \<times> bool" where
  "shouldRemoveNode T prevSibling employeeCodeLines node =
     (if hasEmployeeCodeComment (leadingComments node @ trailingComments node) then
        (if isImportDeclaration node then
           (if isCriticalImport (sourceValueOf node) (importedNames (specifiersOf node))
            then (T, False)
            else (trackNonCritical T (importedNames (specifiersOf node)), True))
         else (T, True))
      else if isJSXElement node \<and> truthy (openingElementOf node) \<and>
              (hasEmployeeCodeComment (leadingComments (openingElementOf node)) \<or>
               hasEmployeeCodeComment (trailingComments (openingElementOf node)))
        then (T, True)
      else if isJSXElement node \<and> truthyName (nameNodeOf (openingElementOf node)) \<and>
              Set_has T (nameText (nameNodeOf (openingElementOf node)))
        then (T, True)
      else if isJSXElement node \<and>
              (case (startLineOf node, employeeCodeLines) of
                 (Some startLine, Some ls) \<Rightarrow> startLine \<in> ls
               | _ \<Rightarrow> False)
        then (T, True)
      else if isJSXElement node \<and> truthy (openingElementOf node) \<and>
              list_ex (usesRemovedStyle T) (attributesOf (openingElementOf node))
        then (T, True)
      else if isImportDeclaration node \<and> truthy prevSibling \<and>
              (hasEmployeeCodeComment (leadingComments prevSibling) \<or>
               hasEmployeeCodeComment (trailingComments prevSibling))
        then (if isCriticalImport (sourceValueOf node) (importedNames (specifiersOf node))
              then (T, False)
              else (trackNonCritical T (importedNames (specifiersOf node)), True))
      else if isVariableDeclarator node \<and> isIdentifier (initOf node) \<and>
              Set_has T (nameText (initOf node))
        then ((if truthy (idOf node) \<and> truthyName (idOf node)
               then Set_add T (nameText (idOf node)) else T), True)
      else if isLogicalExpression node \<and> operatorOf node = ''&&'' \<and>
              truthyName (leftOf node) \<and> Set_has T (nameText (leftOf node))
        then (T, True)
      else if isJSXExpressionContainer node \<and>
              isLogicalExpression (expressionOf node) \<and>
              operatorOf (expressionOf node) = ''&&'' \<and>
              isIdentifier (leftOf (expressionOf node)) \<and>
              truthyName (leftOf (expressionOf node)) \<and>
              (Set_has T (nameText (leftOf (expressionOf node))) \<or>
               nameText (leftOf (expressionOf node)) = ''IS_EMPLOYEE_MODE'')
        then (T, True)
      else (T, False))"

section \<open>The reference rewriter\<close>

text \<open>What a visitor does to the node it is called on: nothing, \<open>path.remove()\<close>, or
  \<open>path.replaceWith(node)\<close>.\<close>

datatype action = Keep | Remove | ReplaceWith node

text \<open>What a visitor can read around its node: \<open>path.parent\<close> and
  \<open>path.parentPath.parent\<close>.\<close>

datatype ctx = Ctx (parentOf: node) (grandparentOf: node)

text \<open>
  \<open>replaceWithEmptyIfNeeded(path)\<close>: the arguments are the tracker, \<open>path.removed\<close>,
  \<open>path.parent\<close> and \<open>path.node\<close>. The two \<open>if\<close> statements run one after the other; after
  the first has replaced the node, the second reads the replacement.
\<close>

definition replaceWithEmptyIfNeeded :: "tracker \<Rightarrow> bool \<Rightarrow> node \<Rightarrow> node \<Rightarrow> action" where
  "replaceWithEmptyIfNeeded T removed parent node =
     (if removed then Keep
      else
        (let first =
               (if isJSXExpressionContainer node \<and>
                   isLogicalExpression (expressionOf node) \<and>
                   operatorOf (expressionOf node) = ''&&'' \<and>
                   nameOf (leftOf (expressionOf node)) = Some ''IS_EMPLOYEE_MODE''
                then ReplaceWith (JSXExpressionContainer no_comments NullLiteral)
                else Keep);
             current = (case first of ReplaceWith m \<Rightarrow> m | _ \<Rightarrow> node)
         in if isIdentifier current \<and> Set_has T (nameText current) then
              (if nameText current \<in> set CRITICAL_IMPORTS then first
               else if \<not> isImportSpecifier parent \<and> \<not> isImportDefaultSpecifier parent
                 then ReplaceWith (Identifier ''undefined'')
               else first)
            else first))"

section \<open>The visitors of the main pass\<close>

text \<open>Each visitor takes the tracker and what it reads of its path, and returns the
  tracker after the call and what it did to the node.\<close>

definition ImportDeclaration_visitor :: "tracker \<Rightarrow> node \<Rightarrow> node \<Rightarrow> tracker \<times> action" where
  "ImportDeclaration_visitor T prevSibling node =
     (if sourceValueOf node = ''react/jsx-runtime'' \<or> sourceValueOf node = ''react/jsx-dev-runtime''
      then (T, Keep)
      else if hasDirectComment node \<or> (truthy prevSibling \<and> hasDirectComment prevSibling) then
        (if isCriticalImport (sourceValueOf node) (importedNames (specifiersOf node))
         then (T, Keep)
         else (trackNonCritical T (importedNames (specifiersOf node)), Remove))
      else (T, Keep))"

text \<open>The loop over the attributes in the \<open>else\<close> branch of the \<open>JSXElement\<close> visitor.\<close>

definition referencesRemovedStyle :: "tracker \<Rightarrow> node \<Rightarrow> bool" where
  "referencesRemovedStyle T attr =
     (isJSXAttribute attr \<and>
      nameOf (nameNodeOf attr) = Some ''style'' \<and>
      isJSXExpressionContainer (valueOf attr) \<and>
      isMemberExpression (expressionOf (valueOf attr)) \<and>
      nameOf (objectOf (expressionOf (valueOf attr))) = Some ''styles'' \<and>
      Set_has T (''styles.'' @ nameText (propertyOf (expressionOf (valueOf attr)))))"

definition JSXElement_visitor :: "comment list \<Rightarrow> tracker \<Rightarrow> node \<Rightarrow> node \<Rightarrow> tracker \<times> action" where
  "JSXElement_visitor comments T prevSibling node =
     (case shouldRemoveNode T prevSibling (Some (findEmployeeCodeCommentLines comments)) node of
        (T1, True) \<Rightarrow> (T1, Remove)
      | (T1, False) \<Rightarrow>
          if truthy (openingElementOf node) \<and>
             list_ex (referencesRemovedStyle T1) (attributesOf (openingElementOf node))
          then (T1, Remove)
          else (T1, Keep))"

definition JSXExpressionContainer_visitor :: "tracker \<Rightarrow> ctx \<Rightarrow> node \<Rightarrow> node \<Rightarrow> tracker \<times> action" where
  "JSXExpressionContainer_visitor T c prevSibling node =
     (case shouldRemoveNode T prevSibling None node of
        (T1, True) \<Rightarrow> (T1, Remove)
      | (T1, False) \<Rightarrow>
          if hasDirectComment node
          then (T1, replaceWithEmptyIfNeeded T1 False (parentOf c) node)
          else (T1, Keep))"

definition LogicalExpression_visitor :: "tracker \<Rightarrow> node \<Rightarrow> tracker \<times> action" where
  "LogicalExpression_visitor T node =
     (if hasDirectComment node \<and> operatorOf node = ''&&'' \<and> isIdentifier (leftOf node) \<and>
         nameOf (leftOf node) = Some ''IS_EMPLOYEE_MODE''
      then (T, ReplaceWith (BooleanLiteral False))
      else (T, Keep))"

definition FunctionDeclaration_visitor :: "tracker \<Rightarrow> node \<Rightarrow> tracker \<times> action" where
  "FunctionDeclaration_visitor T node = (if hasDirectComment node then (T, Remove) else (T, Keep))"

text \<open>The loop \<open>declarations.forEach(decl => if (decl.id && decl.id.name) removedImports.add(decl.id.name))\<close>
  of the main pass.\<close>

definition trackDeclarations :: "tracker \<Rightarrow> node list \<Rightarrow> tracker" where
  "trackDeclarations T declarations =
     fold (\<lambda>decl acc. if truthy (idOf decl) \<and> truthyName (idOf decl)
                      then Set_add acc (nameText (idOf decl)) else acc) declarations T"

definition VariableDeclaration_visitor :: "tracker \<Rightarrow> node \<Rightarrow> tracker \<times> action" where
  "VariableDeclaration_visitor T node =
     (if hasDirectComment node then (trackDeclarations T (declarationsOf node), Remove)
      else (T, Keep))"

definition ExpressionStatement_visitor :: "tracker \<Rightarrow> node \<Rightarrow> tracker \<times> action" where
  "ExpressionStatement_visitor T node = (if hasDirectComment node then (T, Remove) else (T, Keep))"

definition ObjectProperty_visitor :: "tracker \<Rightarrow> ctx \<Rightarrow> node \<Rightarrow> tracker \<times> action" where
  "ObjectProperty_visitor T c node =
     (if hasDirectComment node then
        ((if truthy (parentOf c) \<and> isObjectExpression (parentOf c) \<and>
             truthy (grandparentOf c) \<and> isCallExpression (grandparentOf c) \<and>
             truthy (calleeOf (grandparentOf c)) \<and>
             isMemberExpression (calleeOf (grandparentOf c)) \<and>
             nameOf (objectOf (calleeOf (grandparentOf c))) = Some ''StyleSheet'' \<and>
             truthy (keyOf node) \<and> truthyName (keyOf node)
          then Set_add T (''styles.'' @ nameText (keyOf node))
          else T), Remove)
      else (T, Keep))"

definition ClassProperty_visitor :: "tracker \<Rightarrow> node \<Rightarrow> tracker \<times> action" where
  "ClassProperty_visitor T node = (if hasDirectComment node then (T, Remove) else (T, Keep))"

definition Identifier_visitor :: "tracker \<Rightarrow> ctx \<Rightarrow> node \<Rightarrow> tracker \<times> action" where
  "Identifier_visitor T c node =
     (if nameText node \<in> set CRITICAL_IMPORTS then (T, Keep)
      else if Set_has T (nameText node) \<and> \<not> isImportSpecifier (parentOf c) \<and>
              \<not> isImportDefaultSpecifier (parentOf c)
        then (T, replaceWithEmptyIfNeeded T False (parentOf c) node)
      else (T, Keep))"

text \<open>The visitor object: one handler per node type, chosen by the type of the node.\<close>

fun visitor :: "comment list \<Rightarrow> tracker \<Rightarrow> ctx \<Rightarrow> node \<Rightarrow> node \<Rightarrow> tracker \<times> action" where
  "visitor cs T c prev (ImportDeclaration a s ss) = ImportDeclaration_visitor T prev (ImportDeclaration a s ss)"
| "visitor cs T c prev (JSXElement a l ope ch) = JSXElement_visitor cs T prev (JSXElement a l ope ch)"
| "visitor cs T c prev (JSXExpressionContainer a e) = JSXExpressionContainer_visitor T c prev (JSXExpressionContainer a e)"
| "visitor cs T c prev (LogicalExpression a op l r) = LogicalExpression_visitor T (LogicalExpression a op l r)"
| "visitor cs T c prev (FunctionDeclaration a i ps b) = FunctionDeclaration_visitor T (FunctionDeclaration a i ps b)"
| "visitor cs T c prev (VariableDeclaration a ds) = VariableDeclaration_visitor T (VariableDeclaration a ds)"
| "visitor cs T c prev (ExpressionStatement a e) = ExpressionStatement_visitor T (ExpressionStatement a e)"
| "visitor cs T c prev (ObjectProperty a k v) = ObjectProperty_visitor T c (ObjectProperty a k v)"
| "visitor cs T c prev (ClassProperty a k v) = ClassProperty_visitor T (ClassProperty a k v)"
| "visitor cs T c prev (Identifier s) = Identifier_visitor T c (Identifier s)"
| "visitor cs T c prev n = (T, Keep)"

section \<open>The visitors of the seeding traversal\<close>

text \<open>The traversal started inside \<open>Program.enter\<close> registers two handlers.\<close>

definition seedDeclarations :: "tracker \<Rightarrow> node list \<Rightarrow> tracker" where
  "seedDeclarations T declarations =
     fold (\<lambda>decl acc. if truthy (idOf decl) \<and> truthyName (idOf decl)
                      then (if nameText (idOf decl) \<notin> set CRITICAL_IMPORTS
                            then Set_add acc (nameText (idOf decl)) else acc)
                      else acc) declarations T"

definition seed_VariableDeclaration :: "tracker \<Rightarrow> node \<Rightarrow> tracker \<times> action" where
  "seed_VariableDeclaration T node =
     (if hasDirectComment node then (seedDeclarations T (declarationsOf node), Remove)
      else (T, Keep))"

definition seedStyles :: "tracker \<Rightarrow> node list \<Rightarrow> tracker" where
  "seedStyles T properties =
     fold (\<lambda>prop acc. if hasDirectComment prop
                      then (if truthy (keyOf prop) \<and> truthyName (keyOf prop)
                            then Set_add acc (''styles.'' @ nameText (keyOf prop)) else acc)
                      else acc) properties T"

definition seed_CallExpression :: "tracker \<Rightarrow> node \<Rightarrow> tracker \<times> action" where
  "seed_CallExpression T node =
     (if truthy (calleeOf node) \<and> isMemberExpression (calleeOf node) \<and>
         nameOf (objectOf (calleeOf node)) = Some ''StyleSheet'' \<and>
         nameOf (propertyOf (calleeOf node)) = Some ''create''
      then (case argumentsOf node of
              styleObj # _ \<Rightarrow>
                if isObjectExpression styleObj then (seedStyles T (propertiesOf styleObj), Keep)
                else (T, Keep)
            | [] \<Rightarrow> (T, Keep))
      else (T, Keep))"

fun seed_visitor :: "tracker \<Rightarrow> ctx \<Rightarrow> node \<Rightarrow> node \<Rightarrow> tracker \<times> action" where
  "seed_visitor T c prev (VariableDeclaration a ds) = seed_VariableDeclaration T (VariableDeclaration a ds)"
| "seed_visitor T c prev (CallExpression callee as) = seed_CallExpression T (CallExpression callee as)"
| "seed_visitor T c prev n = (T, Keep)"

section \<open>The traversal\<close>

text \<open>
  A simplified traversal, used below only to run the handlers over the concrete example
  files; no statement about every tree is made on it. Nodes are visited in pre-order, the
  handler of a node runs before its children are visited, a removed node is detached from
  its parent and its children are not visited, a replacement takes the place of the node.
  A child removed from an array disappears from the array; a child removed from a
  single-child position leaves \<open>NullNode\<close>. The previous sibling of an array element is
  the element now in front of it; a single child has none.

  The host does more than that, and none of it is in the plugin's source:
  \<^item> \<open>path.remove()\<close> hands the comments of the removed node to its neighbouring siblings,
    so that a statement can become annotated while the traversal runs;
  \<^item> it removes a parent left without its only child (an expression statement whose
    expression is removed), and refuses, with a \<open>TypeError\<close>, to empty a position that
    requires a node;
  \<^item> \<open>path.replaceWith()\<close> queues the replacement for another visit.

  The example files below are laid out so that a removed node has no comment to hand over
  that its neighbour does not hold already, and so that no required position is emptied;
  where the traversal below leaves an expression statement with \<open>NullNode\<close> for its
  expression, the host removes the statement as well.
\<close>

type_synonym handler = "tracker \<Rightarrow> ctx \<Rightarrow> node \<Rightarrow> node \<Rightarrow> tracker \<times> action"

fun slot :: "node option \<Rightarrow> node" where
  "slot None = NullNode"
| "slot (Some n) = n"

fun visit :: "handler \<Rightarrow> tracker \<Rightarrow> ctx \<Rightarrow> node \<Rightarrow> node \<Rightarrow> tracker \<times> node option"
and visit_children :: "handler \<Rightarrow> tracker \<Rightarrow> node \<Rightarrow> node \<Rightarrow> tracker \<times> node"
and visit_list :: "handler \<Rightarrow> tracker \<Rightarrow> ctx \<Rightarrow> node \<Rightarrow> node list \<Rightarrow> tracker \<times> node list"
where
  "visit h T c prev n =
     (case h T c prev n of
        (T1, Remove) \<Rightarrow> (T1, None)
      | (T1, ReplaceWith m) \<Rightarrow> (T1, Some m)
      | (T1, Keep) \<Rightarrow> (case visit_children h T1 (parentOf c) n of (T2, n') \<Rightarrow> (T2, Some n')))"
| "visit_children h T p (MemberExpression ob pr) =
     (case visit h T (Ctx (MemberExpression ob pr) p) NullNode ob of (T1, r1) \<Rightarrow>
      case visit h T1 (Ctx (MemberExpression (slot r1) pr) p) NullNode pr of (T2, r2) \<Rightarrow>
        (T2, MemberExpression (slot r1) (slot r2)))"
| "visit_children h T p (CallExpression callee as) =
     (case visit h T (Ctx (CallExpression callee as) p) NullNode callee of (T1, r1) \<Rightarrow>
      case visit_list h T1 (Ctx (CallExpression (slot r1) as) p) NullNode as of (T2, as') \<Rightarrow>
        (T2, CallExpression (slot r1) as'))"
| "visit_children h T p (ObjectExpression ps) =
     (case visit_list h T (Ctx (ObjectExpression ps) p) NullNode ps of (T1, ps') \<Rightarrow>
        (T1, ObjectExpression ps'))"
| "visit_children h T p (ObjectProperty a k v) =
     (case visit h T (Ctx (ObjectProperty a k v) p) NullNode k of (T1, r1) \<Rightarrow>
      case visit h T1 (Ctx (ObjectProperty a (slot r1) v) p) NullNode v of (T2, r2) \<Rightarrow>
        (T2, ObjectProperty a (slot r1) (slot r2)))"
| "visit_children h T p (ObjectMethod a k ps b) =
     (case visit h T (Ctx (ObjectMethod a k ps b) p) NullNode k of (T1, r1) \<Rightarrow>
      case visit_list h T1 (Ctx (ObjectMethod a (slot r1) ps b) p) NullNode ps of (T2, ps') \<Rightarrow>
      case visit h T2 (Ctx (ObjectMethod a (slot r1) ps' b) p) NullNode b of (T3, r3) \<Rightarrow>
        (T3, ObjectMethod a (slot r1) ps' (slot r3)))"
| "visit_children h T p (ClassProperty a k v) =
     (case visit h T (Ctx (ClassProperty a k v) p) NullNode k of (T1, r1) \<Rightarrow>
      case visit h T1 (Ctx (ClassProperty a (slot r1) v) p) NullNode v of (T2, r2) \<Rightarrow>
        (T2, ClassProperty a (slot r1) (slot r2)))"
| "visit_children h T p (LogicalExpression a op l r) =
     (case visit h T (Ctx (LogicalExpression a op l r) p) NullNode l of (T1, r1) \<Rightarrow>
      case visit h T1 (Ctx (LogicalExpression a op (slot r1) r) p) NullNode r of (T2, r2) \<Rightarrow>
        (T2, LogicalExpression a op (slot r1) (slot r2)))"
| "visit_children h T p (JSXExpressionContainer a e) =
     (case visit h T (Ctx (JSXExpressionContainer a e) p) NullNode e of (T1, r1) \<Rightarrow>
        (T1, JSXExpressionContainer a (slot r1)))"
| "visit_children h T p (JSXAttribute n v) =
     (case visit h T (Ctx (JSXAttribute n v) p) NullNode n of (T1, r1) \<Rightarrow>
      case visit h T1 (Ctx (JSXAttribute (slot r1) v) p) NullNode v of (T2, r2) \<Rightarrow>
        (T2, JSXAttribute (slot r1) (slot r2)))"
| "visit_children h T p (JSXOpeningElement a n as) =
     (case visit h T (Ctx (JSXOpeningElement a n as) p) NullNode n of (T1, r1) \<Rightarrow>
      case visit_list h T1 (Ctx (JSXOpeningElement a (slot r1) as) p) NullNode as of (T2, as') \<Rightarrow>
        (T2, JSXOpeningElement a (slot r1) as'))"
| "visit_children h T p (JSXElement a l ope ch) =
     (case visit h T (Ctx (JSXElement a l ope ch) p) NullNode ope of (T1, r1) \<Rightarrow>
      case visit_list h T1 (Ctx (JSXElement a l (slot r1) ch) p) NullNode ch of (T2, ch') \<Rightarrow>
        (T2, JSXElement a l (slot r1) ch'))"
| "visit_children h T p (VariableDeclarator i e) =
     (case visit h T (Ctx (VariableDeclarator i e) p) NullNode i of (T1, r1) \<Rightarrow>
      case visit h T1 (Ctx (VariableDeclarator (slot r1) e) p) NullNode e of (T2, r2) \<Rightarrow>
        (T2, VariableDeclarator (slot r1) (slot r2)))"
| "visit_children h T p (VariableDeclaration a ds) =
     (case visit_list h T (Ctx (VariableDeclaration a ds) p) NullNode ds of (T1, ds') \<Rightarrow>
        (T1, VariableDeclaration a ds'))"
| "visit_children h T p (FunctionDeclaration a i ps b) =
     (case visit h T (Ctx (FunctionDeclaration a i ps b) p) NullNode i of (T1, r1) \<Rightarrow>
      case visit_list h T1 (Ctx (FunctionDeclaration a (slot r1) ps b) p) NullNode ps of (T2, ps') \<Rightarrow>
      case visit h T2 (Ctx (FunctionDeclaration a (slot r1) ps' b) p) NullNode b of (T3, r3) \<Rightarrow>
        (T3, FunctionDeclaration a (slot r1) ps' (slot r3)))"
| "visit_children h T p (ExpressionStatement a e) =
     (case visit h T (Ctx (ExpressionStatement a e) p) NullNode e of (T1, r1) \<Rightarrow>
        (T1, ExpressionStatement a (slot r1)))"
| "visit_children h T p (ImportSpecifier i l) =
     (case visit h T (Ctx (ImportSpecifier i l) p) NullNode i of (T1, r1) \<Rightarrow>
      case visit h T1 (Ctx (ImportSpecifier (slot r1) l) p) NullNode l of (T2, r2) \<Rightarrow>
        (T2, ImportSpecifier (slot r1) (slot r2)))"
| "visit_children h T p (ImportDefaultSpecifier l) =
     (case visit h T (Ctx (ImportDefaultSpecifier l) p) NullNode l of (T1, r1) \<Rightarrow>
        (T1, ImportDefaultSpecifier (slot r1)))"
| "visit_children h T p (ImportNamespaceSpecifier l) =
     (case visit h T (Ctx (ImportNamespaceSpecifier l) p) NullNode l of (T1, r1) \<Rightarrow>
        (T1, ImportNamespaceSpecifier (slot r1)))"
| "visit_children h T p (ImportDeclaration a s ss) =
     (case visit_list h T (Ctx (ImportDeclaration a s ss) p) NullNode ss of (T1, ss') \<Rightarrow>
        (T1, ImportDeclaration a s ss'))"
| "visit_children h T p (Other a ty ch) =
     (case visit_list h T (Ctx (Other a ty ch) p) NullNode ch of (T1, ch') \<Rightarrow>
        (T1, Other a ty ch'))"
| "visit_children h T p NullNode = (T, NullNode)"
| "visit_children h T p (Identifier s) = (T, Identifier s)"
| "visit_children h T p (JSXIdentifier s) = (T, JSXIdentifier s)"
| "visit_children h T p (StringLiteral s) = (T, StringLiteral s)"
| "visit_children h T p (BooleanLiteral b) = (T, BooleanLiteral b)"
| "visit_children h T p NullLiteral = (T, NullLiteral)"
| "visit_list h T c prev [] = (T, [])"
| "visit_list h T c prev (n # ns) =
     (case visit h T c prev n of
        (T1, None) \<Rightarrow> visit_list h T1 c prev ns
      | (T1, Some n') \<Rightarrow>
          (case visit_list h T1 c n' ns of (T2, ns') \<Rightarrow> (T2, n' # ns')))"

section \<open>One pass over a file, and a build\<close>

text \<open>The \<open>Program\<close> node and the \<open>File\<close> node above it are nodes the plugin has no
  handler for (the \<open>Program\<close> handlers are modelled apart, below).\<close>

definition topCtx :: "node list \<Rightarrow> ctx" where
  "topCtx body = Ctx (Other no_comments ''Program'' body) (Other no_comments ''File'' [])"

text \<open>\<open>Program.enter\<close>: the seeding traversal over the whole program. (The line set it
  also computes is not used by it.)\<close>

definition Program_enter :: "tracker \<Rightarrow> node list \<Rightarrow> tracker \<times> node list" where
  "Program_enter T body = visit_list seed_visitor T (topCtx body) NullNode body"

fun joinNames :: "string list \<Rightarrow> string" where
  "joinNames [] = []"
| "joinNames [x] = x"
| "joinNames (x # y # ys) = x @ '', '' @ joinNames (y # ys)"

text \<open>\<open>Program.exit\<close>: the line logged, if any.\<close>

definition Program_exit :: "tracker \<Rightarrow> string option" where
  "Program_exit T =
     (if length T > 0
      then Some (''Tree-shaking: Removed employee code components: '' @ joinNames T)
      else None)"

text \<open>
  One pass of the plugin over one file: \<open>Program.enter\<close>, then the main traversal with the
  visitor object. The tracker is the variable \<open>removedImports\<close> of the plugin instance: the
  pass starts with the value it finds there and leaves its value behind; nothing in the
  plugin resets it.
\<close>

definition main_pass :: "comment list \<Rightarrow> tracker \<Rightarrow> node list \<Rightarrow> tracker \<times> node list" where
  "main_pass cs T body = visit_list (visitor cs) T (topCtx body) NullNode body"

definition plugin_pass :: "tracker \<Rightarrow> ast \<Rightarrow> tracker \<times> ast" where
  "plugin_pass T f =
     (case Program_enter T (programBody f) of (T1, body1) \<Rightarrow>
      case main_pass (astComments f) T1 body1 of (T2, body2) \<Rightarrow>
        (T2, Ast (astComments f) body2))"

text \<open>
  \<open>transform\<close> of the custom transformer, for a file name with one of the extensions it
  accepts: the plugin is added exactly when \<open>includeEmployeeCode\<close> is false.
\<close>

definition transform :: "bool \<Rightarrow> tracker \<Rightarrow> ast \<Rightarrow> tracker \<times> ast" where
  "transform includeEmployeeCode T f = (if \<not> includeEmployeeCode then plugin_pass T f else (T, f))"

text \<open>A build: the files are transformed one after the other by the same plugin instance,
  created with an empty \<open>removedImports\<close>.\<close>

fun transform_all :: "bool \<Rightarrow> tracker \<Rightarrow> ast list \<Rightarrow> tracker \<times> ast list" where
  "transform_all inc T [] = (T, [])"
| "transform_all inc T (f # fs) =
     (case transform inc T f of (T1, f') \<Rightarrow>
      case transform_all inc T1 fs of (T2, fs') \<Rightarrow> (T2, f' # fs'))"

definition build :: "bool \<Rightarrow> ast list \<Rightarrow> tracker \<times> ast list" where
  "build includeEmployeeCode files = transform_all includeEmployeeCode [] files"

section \<open>Example inputs\<close>

text \<open>
  Small trees used below to run the definitions. The comments are attached as the parser
  attaches them: a comment between two statements is a trailing comment of the statement
  before it and a leading comment of the statement after it; a comment before the first
  statement of a file or a block, or before the first entry of an object, is a leading
  comment of that statement or entry; a comment in front of an expression is a leading
  comment of the largest expression that starts there.
\<close>

text \<open>An annotation comment on line \<open>l\<close>, as a leading and as a trailing comment.\<close>

definition annotation :: "nat \<Rightarrow> comment" where
  "annotation l = Comment '' @employee-code '' (Some l)"

definition marked :: "nat \<Rightarrow> attached" where
  "marked l = Attached [annotation l] []"

definition markedAfter :: "nat \<Rightarrow> attached" where
  "markedAfter l = Attached [] [annotation l]"

definition numberLiteral :: node where
  "numberLiteral = Other no_comments ''NumericLiteral'' []"

text \<open>An element \<open><tag>...</tag>\<close> that starts on line \<open>l\<close>, without comments or
  attributes.\<close>

definition element :: "nat \<Rightarrow> string \<Rightarrow> node list \<Rightarrow> node" where
  "element l tag children =
     JSXElement no_comments (Some l) (JSXOpeningElement no_comments (JSXIdentifier tag) []) children"

text \<open>\<open>import React from 'react';\<close> and \<open>import Foo from './Foo';\<close>\<close>

definition reactImport :: "attached \<Rightarrow> node" where
  "reactImport a = ImportDeclaration a ''react'' [ImportDefaultSpecifier (Identifier ''React'')]"

definition fooImport :: "attached \<Rightarrow> node" where
  "fooImport a = ImportDeclaration a ''./Foo'' [ImportDefaultSpecifier (Identifier ''Foo'')]"

text \<open>\<open>/* @employee-code */ const View = 1;\<close>\<close>

definition viewDecl :: node where
  "viewDecl = VariableDeclaration (marked 1) [VariableDeclarator (Identifier ''View'') numberLiteral]"

text \<open>File A: \<open>/* @employee-code */ const Secret = 1;\<close>. File B: \<open><Secret/>;\<close>\<close>

definition fileA :: ast where
  "fileA = Ast [annotation 1]
     [VariableDeclaration (marked 1) [VariableDeclarator (Identifier ''Secret'') numberLiteral]]"

definition fileB :: ast where
  "fileB = Ast [] [ExpressionStatement no_comments (element 1 ''Secret'' [])]"

text \<open>
  Line 1 \<open>import React from 'react';\<close>, line 2 \<open>// @employee-code\<close>, line 3
  \<open>import Foo from './Foo';\<close>, line 4 \<open>const X = Foo;\<close>
\<close>

definition aliasDecl :: "string \<Rightarrow> node" where
  "aliasDecl init =
     VariableDeclaration no_comments [VariableDeclarator (Identifier ''X'') (Identifier init)]"

definition aliasFile :: ast where
  "aliasFile = Ast [annotation 2]
     [reactImport (markedAfter 2), fooImport (marked 2), aliasDecl ''Foo'']"

text \<open>
  \<open><View>{IS_EMPLOYEE_MODE && <Secret/>}</View>;\<close> with the element \<open><Secret/>\<close> on line 3.
\<close>

definition guardedRender :: node where
  "guardedRender =
     JSXExpressionContainer no_comments
       (LogicalExpression no_comments ''&&'' (Identifier ''IS_EMPLOYEE_MODE'') (element 3 ''Secret'' []))"

definition guardedFile :: ast where
  "guardedFile = Ast [] [ExpressionStatement no_comments (element 1 ''View'' [guardedRender])]"

text \<open>
  A file that uses a component above the line that imports it:
  line 1 \<open><Foo/>;\<close>, line 2 \<open>import React from 'react';\<close>, line 3 \<open>// @employee-code\<close>,
  line 4 \<open>import Foo from './Foo';\<close>
\<close>

definition lateImportFile :: ast where
  "lateImportFile = Ast [annotation 3]
     [ExpressionStatement no_comments (element 1 ''Foo'' []),
      reactImport (markedAfter 3), fooImport (marked 3)]"

text \<open>The element \<open><Foo.Bar/>\<close> on line \<open>l\<close>: its tag is a member expression of two markup
  identifiers.\<close>

definition memberElement :: "nat \<Rightarrow> node" where
  "memberElement l =
     JSXElement no_comments (Some l)
       (JSXOpeningElement no_comments
          (Other no_comments ''JSXMemberExpression'' [JSXIdentifier ''Foo'', JSXIdentifier ''Bar''])
          []) []"

text \<open>The expression \<open>styles.k\<close>, the attribute \<open>style={e}\<close> and the element
  \<open><View style={e}/>\<close> on line \<open>l\<close>.\<close>

definition styleRef :: "string \<Rightarrow> node" where
  "styleRef k = MemberExpression (Identifier ''styles'') (Identifier k)"

definition styleAttr :: "node \<Rightarrow> node" where
  "styleAttr e = JSXAttribute (JSXIdentifier ''style'') (JSXExpressionContainer no_comments e)"

definition styledView :: "nat \<Rightarrow> node \<Rightarrow> node" where
  "styledView l e =
     JSXElement no_comments (Some l)
       (JSXOpeningElement no_comments (JSXIdentifier ''View'') [styleAttr e]) []"

text \<open>\<open>export default function Panel() { return <what is returned>; }\<close> with the given
  comments on the export declaration.\<close>

definition panel :: "attached \<Rightarrow> node list \<Rightarrow> node" where
  "panel a returned =
     Other a ''ExportDefaultDeclaration''
       [FunctionDeclaration no_comments (Identifier ''Panel'') []
          (Other no_comments ''BlockStatement'' [Other no_comments ''ReturnStatement'' returned])]"

text \<open>\<open>const styles = StyleSheet.create({ <entries> });\<close> with the given comments on the
  declaration.\<close>

definition stylesDecl :: "attached \<Rightarrow> node list \<Rightarrow> node" where
  "stylesDecl a entries =
     VariableDeclaration a
       [VariableDeclarator (Identifier ''styles'')
          (CallExpression (MemberExpression (Identifier ''StyleSheet'') (Identifier ''create''))
             [ObjectExpression entries])]"

definition emptyObject :: node where
  "emptyObject = ObjectExpression []"

text \<open>
  Line 1 \<open>export default function Panel() { return <View style={styles.debugPanel}/>; }\<close>,
  line 3 \<open>const styles = StyleSheet.create({\<close>, line 4 \<open>// @employee-code\<close>, line 5
  \<open>debugPanel: {} });\<close>
\<close>

definition styleFile :: ast where
  "styleFile = Ast [annotation 4]
     [panel no_comments [styledView 1 (styleRef ''debugPanel'')],
      stylesDecl no_comments [ObjectProperty (marked 4) (Identifier ''debugPanel'') emptyObject]]"

text \<open>The same file with \<open>style={[styles.base, styles.debugPanel]}\<close>.\<close>

definition arrayStyle :: node where
  "arrayStyle = Other no_comments ''ArrayExpression'' [styleRef ''base'', styleRef ''debugPanel'']"

definition arrayStyleFile :: ast where
  "arrayStyleFile = Ast [annotation 4]
     [panel no_comments [styledView 1 arrayStyle],
      stylesDecl no_comments [ObjectProperty (marked 4) (Identifier ''debugPanel'') emptyObject]]"

text \<open>The same file with the entry written \<open>'debugPanel': {}\<close>.\<close>

definition stringKeyFile :: ast where
  "stringKeyFile = Ast [annotation 4]
     [panel no_comments [styledView 1 (styleRef ''debugPanel'')],
      stylesDecl no_comments [ObjectProperty (marked 4) (StringLiteral ''debugPanel'') emptyObject]]"

text \<open>
  A file whose table declaration is annotated as well as the entry:
  line 1 \<open>import React from 'react';\<close>, line 2 \<open>// @employee-code\<close>, line 3
  \<open>const styles = StyleSheet.create({\<close>, line 4 \<open>// @employee-code\<close>, line 5
  \<open>debugPanel: {} });\<close>, line 7
  \<open>export default function Panel() { return <View style={styles.debugPanel}/>; }\<close>
\<close>

definition markedTableFile :: ast where
  "markedTableFile = Ast [annotation 2, annotation 4]
     [reactImport (markedAfter 2),
      stylesDecl (marked 2) [ObjectProperty (marked 4) (Identifier ''debugPanel'') emptyObject],
      panel no_comments [styledView 7 (styleRef ''debugPanel'')]]"

text \<open>
  The pieces of the mode-flag scenario, with the flag identifier as a parameter:
  line 1 \<open>const FLAG = true;\<close>, line 2 \<open>/* @employee-code */ const SECRET = 1;\<close>,
  line 4 \<open><View>{\<close>, line 5 \<open>/* @employee-code */ FLAG &&\<close>, line 7 \<open><Secret/>}</View>;\<close>
  The comment of line 2 stands between the two declarations: it is a trailing comment of
  the first and a leading comment of the second.
\<close>

definition flagDecl :: "string \<Rightarrow> node" where
  "flagDecl flag =
     VariableDeclaration (markedAfter 2) [VariableDeclarator (Identifier flag) (BooleanLiteral True)]"

definition secretDecl :: node where
  "secretDecl = VariableDeclaration (marked 2) [VariableDeclarator (Identifier ''SECRET'') numberLiteral]"

definition guardedSecret :: "string \<Rightarrow> node" where
  "guardedSecret flag =
     LogicalExpression (marked 5) ''&&'' (Identifier flag) (element 7 ''Secret'' [])"

definition guardedContainer :: "string \<Rightarrow> node" where
  "guardedContainer flag = JSXExpressionContainer no_comments (guardedSecret flag)"

text \<open>An annotated method entry \<open>debugPanel() {}\<close> of a style table.\<close>

definition methodEntry :: node where
  "methodEntry =
     ObjectMethod (marked 4) (Identifier ''debugPanel'') [] (Other no_comments ''BlockStatement'' [])"

text \<open>
  Line 1 \<open>/* @employee-code */ import * as RN from 'react-native';\<close>, line 2
  \<open>function f() {\<close>, line 3 \<open>/* @employee-code */ const RN = 1; }\<close>
\<close>

definition namespaceFile :: ast where
  "namespaceFile = Ast [annotation 1, annotation 3]
     [ImportDeclaration (marked 1) ''react-native'' [ImportNamespaceSpecifier (Identifier ''RN'')],
      FunctionDeclaration no_comments (Identifier ''f'') []
        (Other no_comments ''BlockStatement''
           [VariableDeclaration (marked 3) [VariableDeclarator (Identifier ''RN'') numberLiteral]])]"

text \<open>The definitions to unfold when a concrete input is evaluated.\<close>

lemmas eval_defs =
  no_comments_def marker_def isEmployeeCodeComment_def hasEmployeeCodeComment_def
  addCommentLines_def findEmployeeCodeCommentLines_def Set_add_def Set_has_def
  CRITICAL_MODULES_def CRITICAL_IMPORTS_def isCriticalImport_def trackNonCritical_def
  leadingComments_def trailingComments_def hasDirectComment_def truthyName_def nameText_def
  specifierName_def importedNames_def List.map_filter_def usesRemovedStyle_def shouldRemoveNode_def
  replaceWithEmptyIfNeeded_def ImportDeclaration_visitor_def referencesRemovedStyle_def
  JSXElement_visitor_def JSXExpressionContainer_visitor_def LogicalExpression_visitor_def
  FunctionDeclaration_visitor_def trackDeclarations_def VariableDeclaration_visitor_def
  ExpressionStatement_visitor_def ObjectProperty_visitor_def ClassProperty_visitor_def
  Identifier_visitor_def seedDeclarations_def seed_VariableDeclaration_def seedStyles_def
  seed_CallExpression_def topCtx_def Program_enter_def Program_exit_def main_pass_def
  plugin_pass_def transform_def build_def visit.simps
  annotation_def marked_def markedAfter_def numberLiteral_def element_def

lemmas example_defs =
  reactImport_def fooImport_def viewDecl_def fileA_def fileB_def aliasDecl_def aliasFile_def guardedRender_def
  guardedFile_def lateImportFile_def memberElement_def styleRef_def styleAttr_def styledView_def
  panel_def stylesDecl_def emptyObject_def styleFile_def arrayStyle_def arrayStyleFile_def
  stringKeyFile_def markedTableFile_def flagDecl_def secretDecl_def guardedSecret_def
  guardedContainer_def methodEntry_def namespaceFile_def

section \<open>Predicates used in the statements\<close>

text \<open>The test the \<open>Identifier\<close> visitor makes on the parent of an identifier.\<close>

definition isSpec :: "node \<Rightarrow> bool" where
  "isSpec p = (isImportSpecifier p \<or> isImportDefaultSpecifier p)"




section \<open>Style references\<close>




section \<open>Import specifiers\<close>

text \<open>A named specifier \<open>{a as b}\<close> or a default specifier \<open>b\<close>, as the parser builds
  them.\<close>

definition plainSpecifier :: "node \<Rightarrow> bool" where
  "plainSpecifier s =
     ((isImportSpecifier s \<and> isIdentifier (importedOf s) \<and> isIdentifier (localOf s)) \<or>
      (isImportDefaultSpecifier s \<and> isIdentifier (localOf s)))"

section \<open>The handlers and the tracker\<close>

text \<open>The equation of \<open>visit\<close> applies to every node; it is unfolded where needed.\<close>

declare visit.simps [simp del]

lemmas visitor_defs =
  ImportDeclaration_visitor_def JSXElement_visitor_def
  JSXExpressionContainer_visitor_def LogicalExpression_visitor_def
  FunctionDeclaration_visitor_def VariableDeclaration_visitor_def
  ExpressionStatement_visitor_def ObjectProperty_visitor_def ClassProperty_visitor_def
  Identifier_visitor_def

lemma Identifier_visitor_eq:
  "Identifier_visitor T c (Identifier s) =
     (T, if s \<notin> set CRITICAL_IMPORTS \<and> s \<in> set T \<and> \<not> isSpec (parentOf c)
         then ReplaceWith (Identifier ''undefined'') else Keep)"
  by (simp add: Identifier_visitor_def replaceWithEmptyIfNeeded_def nameText_def Set_has_def isSpec_def)

lemma Set_add_mono: "set T \<subseteq> set (Set_add T x)"
  by (auto simp: Set_add_def)

















lemma importedNames_nonempty: "N \<in> set (importedNames specs) \<Longrightarrow> N \<noteq> []"
  by (auto simp: importedNames_def)

section \<open>The annotation line set\<close>

lemma fold_addCommentLines:
  "n \<in> fold addCommentLines cs S \<longleftrightarrow>
     n \<in> S \<or> (\<exists>c \<in> set cs. isEmployeeCodeComment c \<and>
                  (\<exists>lc. cline c = Some lc \<and> (n = lc \<or> n = lc + 1)))"
proof (induction cs arbitrary: S)
  case Nil
  then show ?case by simp
next
  case (Cons c cs)
  have step: "n \<in> addCommentLines c S \<longleftrightarrow>
      n \<in> S \<or> (isEmployeeCodeComment c \<and> (\<exists>lc. cline c = Some lc \<and> (n = lc \<or> n = lc + 1)))"
    by (auto simp: addCommentLines_def split: option.splits)
  show ?case
    by (auto simp: Cons.IH step)
qed

lemma lines_iff:
  "n \<in> findEmployeeCodeCommentLines cs \<longleftrightarrow>
     (\<exists>c \<in> set cs. isEmployeeCodeComment c \<and>
        (\<exists>lc. cline c = Some lc \<and> (n = lc \<or> n = lc + 1)))"
  by (simp add: findEmployeeCodeCommentLines_def fold_addCommentLines)

text \<open>
  Claim C9. The line set holds exactly the start line of every annotation comment and the
  line after it. For a markup element that no other rule removes (no annotation on the
  element or its opening tag, tag name not tracked, no tracked style key in its style
  attribute), the \<open>JSXElement\<close> visitor removes the element exactly when its start line is
  in the line set. So an element whose start line is two or more lines below every
  annotation comment (or above it) is kept.
\<close>

theorem line_heuristic_boundary:
  assumes "\<not> hasEmployeeCodeComment (leadingOf a @ trailingOf a)"
    and "\<not> hasDirectComment ope"
    and "\<not> (truthyName (nameNodeOf ope) \<and> Set_has T (nameText (nameNodeOf ope)))"
    and "\<not> list_ex (usesRemovedStyle T) (attributesOf ope)"
    and "\<not> list_ex (referencesRemovedStyle T) (attributesOf ope)"
  shows "findEmployeeCodeCommentLines cs =
           {n. \<exists>c \<in> set cs. isEmployeeCodeComment c \<and>
                 (\<exists>lc. cline c = Some lc \<and> (n = lc \<or> n = lc + 1))}
         \<and> (JSXElement_visitor cs T prev (JSXElement a (Some l) ope ch) = (T, Remove)
              \<longleftrightarrow> l \<in> findEmployeeCodeCommentLines cs)
         \<and> (JSXElement_visitor cs T prev (JSXElement a (Some l) ope ch) = (T, Keep)
              \<longleftrightarrow> l \<notin> findEmployeeCodeCommentLines cs)
         \<and> ((\<forall>c \<in> set cs. \<forall>lc. isEmployeeCodeComment c \<and> cline c = Some lc \<longrightarrow> l < lc \<or> lc + 2 \<le> l)
              \<longrightarrow> JSXElement_visitor cs T prev (JSXElement a (Some l) ope ch) = (T, Keep))"
proof -
  have set_eq: "findEmployeeCodeCommentLines cs =
           {n. \<exists>c \<in> set cs. isEmployeeCodeComment c \<and>
                 (\<exists>lc. cline c = Some lc \<and> (n = lc \<or> n = lc + 1))}"
    using lines_iff by blast
  have dec: "JSXElement_visitor cs T prev (JSXElement a (Some l) ope ch) =
           (T, if l \<in> findEmployeeCodeCommentLines cs then Remove else Keep)"
    using assms
    by (auto simp: JSXElement_visitor_def shouldRemoveNode_def leadingComments_def
        trailingComments_def hasDirectComment_def)
  have far: "(\<forall>c \<in> set cs. \<forall>lc. isEmployeeCodeComment c \<and> cline c = Some lc \<longrightarrow> l < lc \<or> lc + 2 \<le> l)
      \<Longrightarrow> l \<notin> findEmployeeCodeCommentLines cs"
    by (fastforce simp: lines_iff)
  show ?thesis
    using set_eq dec far by auto
qed

text \<open>With one annotation comment on line 4, an element that starts on line 6 is kept and
  one that starts on line 5 is removed.\<close>

theorem line_heuristic_boundary_witness:
  "JSXElement_visitor [Comment '' @employee-code '' (Some 4)] [] NullNode
      (JSXElement no_comments (Some 6) (JSXOpeningElement no_comments (JSXIdentifier ''Panel'') []) [])
     = ([], Keep)
   \<and> JSXElement_visitor [Comment '' @employee-code '' (Some 4)] [] NullNode
      (JSXElement no_comments (Some 5) (JSXOpeningElement no_comments (JSXIdentifier ''Panel'') []) [])
     = ([], Remove)"
proof -
  have a: "\<not> hasEmployeeCodeComment (leadingOf no_comments @ trailingOf no_comments)"
    by (simp add: no_comments_def hasEmployeeCodeComment_def)
  have b: "\<not> hasDirectComment (JSXOpeningElement no_comments (JSXIdentifier ''Panel'') [])"
    by (simp add: no_comments_def hasEmployeeCodeComment_def hasDirectComment_def
        leadingComments_def trailingComments_def)
  have c: "\<not> (truthyName (nameNodeOf (JSXOpeningElement no_comments (JSXIdentifier ''Panel'') [])) \<and>
       Set_has [] (nameText (nameNodeOf (JSXOpeningElement no_comments (JSXIdentifier ''Panel'') []))))"
    by (simp add: Set_has_def)
  have d: "\<not> list_ex (usesRemovedStyle []) (attributesOf (JSXOpeningElement no_comments (JSXIdentifier ''Panel'') []))"
    by simp
  have e: "\<not> list_ex (referencesRemovedStyle []) (attributesOf (JSXOpeningElement no_comments (JSXIdentifier ''Panel'') []))"
    by simp
  have l6: "(6::nat) \<notin> findEmployeeCodeCommentLines [Comment '' @employee-code '' (Some 4)]"
    by (simp add: findEmployeeCodeCommentLines_def addCommentLines_def)
  have l5: "(5::nat) \<in> findEmployeeCodeCommentLines [Comment '' @employee-code '' (Some 4)]"
    by (simp add: findEmployeeCodeCommentLines_def addCommentLines_def isEmployeeCodeComment_def marker_def)
  show ?thesis
    using line_heuristic_boundary [OF a b c d e, of "[Comment '' @employee-code '' (Some 4)]" NullNode 6 "[]"]
      line_heuristic_boundary [OF a b c d e, of "[Comment '' @employee-code '' (Some 4)]" NullNode 5 "[]"]
      l5 l6
    by blast
qed

section \<open>The tracker and the critical names\<close>

text \<open>
  The seeding handler and the handler of the main pass treat the same declaration
  differently: only the first one skips critical names.
\<close>

lemma seed_VariableDeclaration_critical:
  "set T \<inter> set CRITICAL_IMPORTS = {} \<Longrightarrow>
   set (fst (seed_VariableDeclaration T node)) \<inter> set CRITICAL_IMPORTS = {}"
proof -
  have "set S \<inter> set CRITICAL_IMPORTS = {} \<Longrightarrow>
        set (seedDeclarations S ds) \<inter> set CRITICAL_IMPORTS = {}" for S ds
    unfolding seedDeclarations_def
    by (induction ds arbitrary: S) (auto simp: Set_add_def)
  then show "set T \<inter> set CRITICAL_IMPORTS = {} \<Longrightarrow>
      set (fst (seed_VariableDeclaration T node)) \<inter> set CRITICAL_IMPORTS = {}"
    by (simp add: seed_VariableDeclaration_def)
qed

text \<open>
  Claim C1. The \<open>VariableDeclaration\<close> visitor of the main pass, called on
  \<open>/* @employee-code */ const View = 1;\<close> with an empty tracker, adds the critical name
  \<open>View\<close> to the tracker, and \<open>Program.exit\<close> then reports it; the seeding handler called
  on the same node does not.
\<close>

theorem main_visitor_tracks_critical_name:
  "VariableDeclaration_visitor [] viewDecl = ([''View''], Remove)
   \<and> visit (visitor cs) [] c prev viewDecl = ([''View''], None)
   \<and> ''View'' \<in> set CRITICAL_IMPORTS
   \<and> Program_exit [''View''] = Some ''Tree-shaking: Removed employee code components: View''
   \<and> seed_VariableDeclaration [] viewDecl = ([], Remove)"
  by (simp add: viewDecl_def eval_defs)

section \<open>The tracker across files\<close>

text \<open>
  Claim C2. File B alone is left as it is. In a build that transforms file A before
  file B, the name \<open>Secret\<close> tracked in file A is still in the tracker when file B is
  pruned, and the element \<open><Secret/>\<close> of file B is removed.
\<close>

theorem tracker_leaks_into_next_file:
  "plugin_pass [] fileB = ([], fileB)
   \<and> build False [fileA, fileB] =
       ([''Secret''], [Ast [annotation 1] [], Ast [] [ExpressionStatement no_comments NullNode]])"
  by (simp add: fileA_def fileB_def eval_defs)

section \<open>The guarded conditional render\<close>

text \<open>The \<open>JSXExpressionContainer\<close> visitor never replaces a container: whenever the
  container carries a direct annotation, \<open>shouldRemoveNode\<close> has already answered true.\<close>

lemma container_visitor_never_replaces:
  "JSXExpressionContainer_visitor T c prev (JSXExpressionContainer a e) \<noteq> (T', ReplaceWith m)"
  by (auto simp: JSXExpressionContainer_visitor_def shouldRemoveNode_def hasDirectComment_def
      hasEmployeeCodeComment_def split: prod.splits bool.splits)

text \<open>
  Claim C6. A container \<open>{IS_EMPLOYEE_MODE && x}\<close>, annotated or not, is removed from its
  parent by the \<open>JSXExpressionContainer\<close> visitor; it is not replaced by \<open>{null}\<close>. In
  \<open><View>{IS_EMPLOYEE_MODE && <Secret/>}</View>\<close> the element \<open>View\<close> is left without
  children.
\<close>

theorem guarded_container_is_removed:
  "visit (visitor cs) T c prev
     (JSXExpressionContainer a (LogicalExpression b ''&&'' (Identifier ''IS_EMPLOYEE_MODE'') r))
     = (T, None)
   \<and> plugin_pass [] guardedFile =
       ([], Ast [] [ExpressionStatement no_comments (element 1 ''View'' [])])"
proof -
  have "JSXExpressionContainer_visitor T c prev
     (JSXExpressionContainer a (LogicalExpression b ''&&'' (Identifier ''IS_EMPLOYEE_MODE'') r))
     = (T, Remove)"
    by (simp add: JSXExpressionContainer_visitor_def shouldRemoveNode_def truthyName_def nameText_def)
  moreover have "plugin_pass [] guardedFile =
       ([], Ast [] [ExpressionStatement no_comments (element 1 ''View'' [])])"
    by (simp add: guardedFile_def guardedRender_def eval_defs)
  ultimately show ?thesis by (simp add: visit.simps)
qed

section \<open>Aliases of tracked names\<close>

text \<open>The branch of \<open>shouldRemoveNode\<close> for declarators would track the alias, but the
  visitor object has no handler for declarators and never calls it on one.\<close>

lemma shouldRemoveNode_declarator_branch:
  "shouldRemoveNode [''Foo''] NullNode None (VariableDeclarator (Identifier ''X'') (Identifier ''Foo''))
     = ([''Foo'', ''X''], True)"
  by (simp add: eval_defs)

lemma visitor_VariableDeclarator:
  "visitor cs T c prev (VariableDeclarator i e) = (T, Keep)"
  "seed_visitor T c prev (VariableDeclarator i e) = (T, Keep)"
  by simp_all

text \<open>
  Claim C8. In the file with \<open>import React from 'react'\<close>, the annotated
  \<open>import Foo from './Foo'\<close> and \<open>const X = Foo\<close>, the import of \<open>Foo\<close> is removed and
  \<open>Foo\<close> is tracked, but the declarator of \<open>X\<close> stays, with its initializer rewritten to
  \<open>undefined\<close>, and \<open>X\<close> is not tracked.
\<close>

theorem alias_declarator_not_propagated:
  "plugin_pass [] aliasFile =
     ([''Foo''], Ast [annotation 2] [reactImport (markedAfter 2), aliasDecl ''undefined''])"
  by (simp add: example_defs eval_defs)

section \<open>A second pass\<close>

text \<open>
  Claim C10. The first pass over the file that imports \<open>Foo\<close> after using it removes the
  import and leaves \<open><Foo/>\<close>; a second pass of the same plugin instance over the output
  starts with \<open>Foo\<close> in the tracker and removes \<open><Foo/>\<close>.
\<close>

theorem second_pass_removes_more:
  "plugin_pass [] lateImportFile =
     ([''Foo''],
      Ast [annotation 3]
        [ExpressionStatement no_comments (element 1 ''Foo'' []), reactImport (markedAfter 3)])
   \<and> plugin_pass [''Foo'']
       (Ast [annotation 3]
          [ExpressionStatement no_comments (element 1 ''Foo'' []), reactImport (markedAfter 3)]) =
     ([''Foo''],
      Ast [annotation 3] [ExpressionStatement no_comments NullNode, reactImport (markedAfter 3)])"
  by (simp add: example_defs eval_defs)

section \<open>Cascade to the uses of a tracked name\<close>




section \<open>Cascade from an annotated style entry\<close>




section \<open>The mode-flag scenario\<close>

text \<open>
  Claim C7. In the scenario the literal \<open>false\<close> is never written, and the declaration of
  the flag does not stay. The \<open>LogicalExpression\<close> visitor would replace the annotated
  \<open>IS_EMPLOYEE_MODE && <Secret/>\<close> by \<open>false\<close> (and keeps the expression under any other
  flag name), but the expression stands in an expression container, which is visited
  first: for the flag \<open>IS_EMPLOYEE_MODE\<close>, and for any flag that is tracked, the
  \<open>JSXExpressionContainer\<close> visitor removes the container with the expression in it. The
  comment in front of the declaration of \<open>SECRET\<close> is also the trailing comment of the
  declaration of the flag: the seeding handler removes that declaration and tracks the
  flag, as it removes the declaration of \<open>SECRET\<close>. A statement that carries the annotation
  is removed by the \<open>ExpressionStatement\<close> visitor with all that is in it.
\<close>

theorem mode_flag_never_false:
  "visitor cs T c prev (guardedContainer ''IS_EMPLOYEE_MODE'') = (T, Remove)
   \<and> visitor cs T c prev (guardedSecret ''IS_EMPLOYEE_MODE'') = (T, ReplaceWith (BooleanLiteral False))
   \<and> visitor cs T c prev (guardedSecret ''FLAG_MODE'') = (T, Keep)
   \<and> seed_visitor [] c prev (flagDecl ''IS_EMPLOYEE_MODE'') = ([''IS_EMPLOYEE_MODE''], Remove)
   \<and> seed_visitor [] c prev (flagDecl ''FLAG_MODE'') = ([''FLAG_MODE''], Remove)
   \<and> seed_visitor [''FLAG_MODE''] c prev secretDecl = ([''FLAG_MODE'', ''SECRET''], Remove)
   \<and> visitor cs [''FLAG_MODE'', ''SECRET''] c prev (guardedContainer ''FLAG_MODE'')
       = ([''FLAG_MODE'', ''SECRET''], Remove)
   \<and> visitor cs T c prev (ExpressionStatement (marked 2) e) = (T, Remove)"
  by (simp add: example_defs eval_defs)

section \<open>Annotated imports of protected modules\<close>

text \<open>An import that \<open>isCriticalImport\<close> protects is never removed and adds nothing to the
  tracker, with or without an annotation.\<close>

lemma protected_import_visitor:
  "isCriticalImport src (importedNames specs) \<Longrightarrow>
   ImportDeclaration_visitor T prev (ImportDeclaration a src specs) = (T, Keep)"
  by (simp add: ImportDeclaration_visitor_def)

lemma identifier_in_specifier:
  "isSpec (parentOf c) \<Longrightarrow> visit (visitor cs) T c prev (Identifier s) = (T, Some (Identifier s))"
  by (simp add: visit.simps Identifier_visitor_eq)

lemma plain_specifier_unchanged:
  assumes "plainSpecifier s"
  shows "visit (visitor cs) T c prev s = (T, Some s)"
proof -
  have id: "isIdentifier n \<Longrightarrow> isSpec (parentOf c') \<Longrightarrow>
      visit (visitor cs) T c' NullNode n = (T, Some n)" for n c'
    by (cases n) (auto simp: identifier_in_specifier)
  show ?thesis
  proof (cases s)
    case (ImportSpecifier i l)
    then show ?thesis
      using assms id [of i "Ctx (ImportSpecifier i l) (parentOf c)"]
        id [of l "Ctx (ImportSpecifier i l) (parentOf c)"]
      by (simp add: plainSpecifier_def visit.simps [of _ _ _ _ "ImportSpecifier i l"] isSpec_def)
  next
    case (ImportDefaultSpecifier l)
    then show ?thesis
      using assms id [of l "Ctx (ImportDefaultSpecifier l) (parentOf c)"]
      by (simp add: plainSpecifier_def visit.simps [of _ _ _ _ "ImportDefaultSpecifier l"] isSpec_def)
  qed (use assms in \<open>auto simp: plainSpecifier_def\<close>)
qed

lemma plain_specifiers_unchanged:
  "list_all plainSpecifier ss \<Longrightarrow> visit_list (visitor cs) T c prev ss = (T, ss)"
  by (induction ss arbitrary: prev) (auto simp: plain_specifier_unchanged)

text \<open>With named and default specifiers the whole declaration comes out of the traversal
  as it went in.\<close>

lemma protected_import_unchanged:
  assumes "isCriticalImport src (importedNames specs)" "list_all plainSpecifier specs"
  shows "visit (visitor cs) T c prev (ImportDeclaration a src specs) =
           (T, Some (ImportDeclaration a src specs))"
  using assms
  by (simp add: visit.simps [of _ _ _ _ "ImportDeclaration a src specs"]
      protected_import_visitor plain_specifiers_unchanged)

text \<open>
  Claim C5. The annotated import \<open>import * as RN from 'react-native'\<close> is kept, but not
  unchanged: the name \<open>RN\<close> is also declared by an annotated \<open>const\<close> inside a function, the
  seeding traversal tracks it, and the \<open>Identifier\<close> visitor, which spares the identifiers
  of \<open>ImportSpecifier\<close> and \<open>ImportDefaultSpecifier\<close> only, rewrites the local name of the
  namespace specifier to \<open>undefined\<close>.
\<close>

theorem namespace_import_rewritten:
  "plugin_pass [] namespaceFile =
     ([''RN''],
      Ast [annotation 1, annotation 3]
        [ImportDeclaration (marked 1) ''react-native''
           [ImportNamespaceSpecifier (Identifier ''undefined'')],
         FunctionDeclaration no_comments (Identifier ''f'') []
           (Other no_comments ''BlockStatement'' [])])"
  by (simp add: example_defs eval_defs)

end
